theory Spec2Isabelle
  imports Main "HOL-Library.Word"
begin

section \<open>The getBlock RPC method of the Solana client (rpc/getBlock.go)\<close>

subsection \<open>Option and result types\<close>

text \<open>
  \<^verbatim>\<open>TransactionDetailsType\<close> is a Go string type: any string is a value of it,
  and the empty string is its zero value.
\<close>

type_synonym TransactionDetailsType = string

text \<open>
  Modelled from the spec: \<^verbatim>\<open>solana.EncodingType\<close> and \<^verbatim>\<open>CommitmentType\<close> are
  declared outside this file. The method compares both with the empty string, and
  the spec speaks of "invalid commitment strings" and "non-empty string" encodings,
  so they are string types as well.
\<close>

type_synonym EncodingType = string
type_synonym CommitmentType = string

definition TransactionDetailsFull :: TransactionDetailsType where
  "TransactionDetailsFull = ''full''"

definition TransactionDetailsSignatures :: TransactionDetailsType where
  "TransactionDetailsSignatures = ''signatures''"

definition TransactionDetailsNone :: TransactionDetailsType where
  "TransactionDetailsNone = ''none''"

text \<open>
  \<^verbatim>\<open>GetBlockOpts\<close>: \<open>Rewards\<close> is a \<^verbatim>\<open>*bool\<close>, so \<open>None\<close> is the nil pointer and
  \<open>Some b\<close> a pointer to \<open>b\<close>.
\<close>

record GetBlockOpts =
  Encoding :: EncodingType
  TransactionDetails :: TransactionDetailsType
  Rewards :: "bool option"
  Commitment :: CommitmentType

text \<open>
  \<^verbatim>\<open>GetBlockResult\<close>. Hashes and signatures are byte arrays; the transaction and
  reward records are types of other packages and stay abstract. The field
  \<^verbatim>\<open>Rewards\<close> of the result is named \<open>BlockRewards\<close> here, since the options
  record already has a field of that name.
\<close>

type_synonym Hash = "8 word list"
type_synonym Signature = "8 word list"
typedecl TransactionWithMeta
typedecl BlockReward

record GetBlockResult =
  Blockhash :: Hash
  PreviousBlockhash :: Hash
  ParentSlot :: "64 word"
  Transactions :: "TransactionWithMeta list"
  Signatures :: "Signature list"
  BlockRewards :: "BlockReward list"
  BlockTime :: "64 word option"
  BlockHeight :: "64 word option"

subsection \<open>Errors\<close>

text \<open>
  Modelled from the spec: \<^verbatim>\<open>ErrNotConfirmed\<close> is a package-level error value
  declared outside this file; the spec calls it the distinct BlockNotConfirmed
  condition, so it is a constructor of its own. Go's \<^verbatim>\<open>error\<close> is an open
  interface: besides \<open>ErrNotConfirmed\<close> its values are \<open>Errorf msg\<close>, what
  \<^verbatim>\<open>fmt.Errorf\<close> returns for the formatted message \<open>msg\<close>, and \<open>OtherError e\<close>,
  any other value of the interface (a network failure, a JSON-RPC error object).
  The transport may report any of them.
\<close>

datatype 'e error = Errorf string | ErrNotConfirmed | OtherError 'e

subsection \<open>The parameter object and the transport\<close>

text \<open>
  Modelled from the spec: the type \<^verbatim>\<open>M\<close> is declared outside this file; the method
  uses it as a map from string keys to values of any type, and the spec calls it
  the options object. The values stored in it keep their Go type: the three
  string types, and the \<^verbatim>\<open>*bool\<close> pointer itself for rewards (\<open>BoolPtrV None\<close>
  would be a nil pointer, which is sent as null).
\<close>

datatype any =
    EncodingV EncodingType
  | TransactionDetailsV TransactionDetailsType
  | CommitmentV CommitmentType
  | BoolPtrV "bool option"

type_synonym M = "string \<rightharpoonup> any"

datatype param = Uint64Param "64 word" | MParam M

text \<open>
  The positional parameters of the call: the slot, an unsigned 64-bit integer, and
  the object.

  The transport is external. Its behaviour is a parameter: given the context, the
  method name, the positional parameters and the state of the outside world, it
  yields the pointer it decoded into \<^verbatim>\<open>out\<close> (\<open>None\<close> is nil), the error it
  reports (\<open>None\<close> is nil) and the new state of the outside world. Nothing is
  assumed of it: it may report an error after writing into \<^verbatim>\<open>out\<close>.

  Modelled from the spec: the type \<^verbatim>\<open>Client\<close> is declared outside this file; the
  method reads its field \<^verbatim>\<open>rpcClient\<close>, the transport.
\<close>

type_synonym ('ctx, 's, 'e) transport =
  "'ctx \<Rightarrow> string \<Rightarrow> param list \<Rightarrow> 's \<Rightarrow> (GetBlockResult option \<times> 'e error option) \<times> 's"

record ('ctx, 's, 'e) Client =
  rpcClient :: "('ctx, 's, 'e) transport"

text \<open>
  The world a call runs in: the trace of the calls made on the transport so far
  (method name and parameters, in order) and the transport's own state.
\<close>

record 's world =
  calls :: "(string \<times> param list) list"
  net :: 's

text \<open>
  Modelled from the spec: \<^verbatim>\<open>CallForInto\<close> is a method of the transport, declared
  outside this file; the spec gives it as the capability
  "Call(method name, ordered parameters) -> raw result or error". One invocation
  appends one entry to the trace and runs the transport once.
\<close>

definition CallForInto ::
  "('ctx, 's, 'e) transport \<Rightarrow> 'ctx \<Rightarrow> string \<Rightarrow> param list \<Rightarrow> 's world
     \<Rightarrow> (GetBlockResult option \<times> 'e error option) \<times> 's world" where
  "CallForInto rc ctx method params w =
     (case rc ctx method params (net w) of
        (r, n') \<Rightarrow> (r, \<lparr>calls = calls w @ [(method, params)], net = n'\<rparr>))"

subsection \<open>Encodings\<close>

text \<open>
  Modelled from the spec: the constant \<^verbatim>\<open>solana.EncodingJSON\<close> is declared in
  another package; the spec and the field's comment give its value as "json".
\<close>

definition EncodingJSON :: EncodingType where
  "EncodingJSON = ''json''"

text \<open>
  Modelled from the spec: the constant \<^verbatim>\<open>solana.EncodingJSONParsed\<close> is declared in
  another package; the spec and the field's comment give its value as "jsonParsed".
\<close>

definition EncodingJSONParsed :: EncodingType where
  "EncodingJSONParsed = ''jsonParsed''"

text \<open>
  Modelled from the spec: the constant \<^verbatim>\<open>solana.EncodingBase58\<close> is declared in
  another package; the spec and the field's comment give its value as "base58".
\<close>

definition EncodingBase58 :: EncodingType where
  "EncodingBase58 = ''base58''"

text \<open>
  Modelled from the spec: the constant \<^verbatim>\<open>solana.EncodingBase64\<close> is declared in
  another package; the spec and the field's comment give its value as "base64".
\<close>

definition EncodingBase64 :: EncodingType where
  "EncodingBase64 = ''base64''"

text \<open>
  Modelled from the spec: the helper \<^verbatim>\<open>solana.IsAnyOfEncodingType\<close> is declared in
  another package; the spec says a supplied encoding "must be a member of" the
  values listed, so the helper tells whether the candidate equals one of the
  allowed values, tried in order.
\<close>

fun IsAnyOfEncodingType :: "EncodingType \<Rightarrow> EncodingType list \<Rightarrow> bool" where
  "IsAnyOfEncodingType candidate [] = False"
| "IsAnyOfEncodingType candidate (v # allowed) =
     (if candidate = v then True else IsAnyOfEncodingType candidate allowed)"

subsection \<open>GetBlockWithOpts and GetBlock\<close>

text \<open>
  Lines 74 to 101 of \<^verbatim>\<open>GetBlockWithOpts\<close>: the parameter object, or the error of
  the early return. The object starts with the default encoding; the three other
  fields are stored when they are not the zero value, in the source's order; the
  encoding is checked and stored last.
\<close>

definition getBlockObj :: "GetBlockOpts option \<Rightarrow> 'e error + M" where
  "getBlockObj opts =
     (let obj = [''encoding'' \<mapsto> EncodingV EncodingJSON] in
      case opts of
        None \<Rightarrow> Inr obj
      | Some opt \<Rightarrow>
          (let obj = (if TransactionDetails opt \<noteq> ''''
                      then obj(''transactionDetails'' \<mapsto> TransactionDetailsV (TransactionDetails opt))
                      else obj);
               obj = (if Rewards opt \<noteq> None
                      then obj(''rewards'' \<mapsto> BoolPtrV (Rewards opt))
                      else obj);
               obj = (if Commitment opt \<noteq> ''''
                      then obj(''commitment'' \<mapsto> CommitmentV (Commitment opt))
                      else obj)
           in if Encoding opt \<noteq> ''''
              then (if \<not> IsAnyOfEncodingType (Encoding opt)
                          [EncodingJSON, EncodingJSONParsed, EncodingBase58, EncodingBase64]
                    then Inl (Errorf (''provided encoding is not supported: '' @ Encoding opt))
                    else Inr (obj(''encoding'' \<mapsto> EncodingV (Encoding opt))))
              else Inr obj))"

text \<open>
  The whole method. It returns the pair \<^verbatim>\<open>(out, err)\<close> as Go does, both
  nullable, and the world after the call.
\<close>

definition GetBlockWithOpts ::
  "('ctx, 's, 'e) Client \<Rightarrow> 'ctx \<Rightarrow> 64 word \<Rightarrow> GetBlockOpts option \<Rightarrow> 's world
     \<Rightarrow> (GetBlockResult option \<times> 'e error option) \<times> 's world" where
  "GetBlockWithOpts cl ctx slot opts w =
     (case getBlockObj opts of
        Inl e \<Rightarrow> ((None, Some e), w)
      | Inr obj \<Rightarrow>
          (let params = [Uint64Param slot, MParam obj] in
           case CallForInto (rpcClient cl) ctx ''getBlock'' params w of
             ((out, err), w') \<Rightarrow>
               if err \<noteq> None then ((None, err), w')
               else if out = None then ((None, Some ErrNotConfirmed), w')
               else ((out, err), w')))"

definition GetBlock ::
  "('ctx, 's, 'e) Client \<Rightarrow> 'ctx \<Rightarrow> 64 word \<Rightarrow> 's world
     \<Rightarrow> (GetBlockResult option \<times> 'e error option) \<times> 's world" where
  "GetBlock cl ctx slot w = GetBlockWithOpts cl ctx slot None w"

subsection \<open>The request as the specification words it\<close>

text \<open>
  The specification's description of the options object (section 4.1), written
  key by key: the encoding key always, with the supplied encoding or the default;
  each other key only when its field was supplied. It is compared below with the
  object \<open>getBlockObj\<close> builds.
\<close>

definition optionsObject :: "GetBlockOpts option \<Rightarrow> M" where
  "optionsObject opts = (\<lambda>k.
     if k = ''encoding''
     then Some (EncodingV (case opts of None \<Rightarrow> ''json''
                           | Some opt \<Rightarrow> if Encoding opt = '''' then ''json'' else Encoding opt))
     else (case opts of None \<Rightarrow> None
           | Some opt \<Rightarrow>
               if k = ''transactionDetails'' \<and> TransactionDetails opt \<noteq> ''''
               then Some (TransactionDetailsV (TransactionDetails opt))
               else if k = ''rewards'' then map_option (\<lambda>b. BoolPtrV (Some b)) (Rewards opt)
               else if k = ''commitment'' \<and> Commitment opt \<noteq> ''''
               then Some (CommitmentV (Commitment opt))
               else None))"

text \<open>
  The encodings the specification lets through: none supplied (a nil bundle or the
  empty string), or one of the four valid values.
\<close>

definition encodingAccepted :: "GetBlockOpts option \<Rightarrow> bool" where
  "encodingAccepted opts =
     (case opts of None \<Rightarrow> True
      | Some opt \<Rightarrow> Encoding opt = '''' \<or> Encoding opt \<in> {''json'', ''jsonParsed'', ''base58'', ''base64''})"

subsection \<open>Sample values for the concrete runs\<close>

text \<open>
  A decoded block, a transport that gives the same reply to every call and leaves
  the outside world as it is, and a world in which no call has been made yet.
\<close>

definition sampleBlock :: GetBlockResult where
  "sampleBlock =
     \<lparr>Blockhash = replicate 32 7, PreviousBlockhash = replicate 32 0, ParentSlot = 4,
      Transactions = [], Signatures = [], BlockRewards = [],
      BlockTime = None, BlockHeight = Some 3\<rparr>"

definition fixedReply ::
  "GetBlockResult option \<times> 'e error option \<Rightarrow> ('ctx, 's, 'e) transport" where
  "fixedReply r ctx method params s = (r, s)"

definition emptyWorld :: "unit world" where
  "emptyWorld = \<lparr>calls = [], net = ()\<rparr>"

section \<open>Properties\<close>

subsection \<open>The parameter object and the two ways out of the method\<close>

lemma IsAnyOfEncodingType_valid:
  "IsAnyOfEncodingType e [EncodingJSON, EncodingJSONParsed, EncodingBase58, EncodingBase64]
     \<longleftrightarrow> e \<in> {''json'', ''jsonParsed'', ''base58'', ''base64''}"
  by (simp add: EncodingJSON_def EncodingJSONParsed_def EncodingBase58_def EncodingBase64_def)

lemma getBlockObj_rejected:
  assumes "Encoding opt \<noteq> ''''"
    and "Encoding opt \<notin> {''json'', ''jsonParsed'', ''base58'', ''base64''}"
  shows "getBlockObj (Some opt) = Inl (Errorf (''provided encoding is not supported: '' @ Encoding opt))"
  using assms unfolding getBlockObj_def Let_def
  by (simp add: IsAnyOfEncodingType_valid del: IsAnyOfEncodingType.simps)

lemma getBlockObj_accepted:
  assumes "encodingAccepted opts"
  shows "getBlockObj opts = Inr (optionsObject opts)"
proof (cases opts)
  case None
  then show ?thesis
    by (auto simp: getBlockObj_def optionsObject_def EncodingJSON_def)
next
  case (Some opt)
  with assms have ok: "Encoding opt = '''' \<or> Encoding opt \<in> {''json'', ''jsonParsed'', ''base58'', ''base64''}"
    by (simp add: encodingAccepted_def)
  have "getBlockObj (Some opt) = Inr (optionsObject (Some opt))"
    using ok unfolding getBlockObj_def Let_def optionsObject_def
    by (cases "Rewards opt")
       (auto simp: EncodingJSON_def EncodingJSONParsed_def EncodingBase58_def
             EncodingBase64_def fun_eq_iff)
  with Some show ?thesis by simp
qed

lemma GetBlockWithOpts_rejected:
  assumes "getBlockObj opts = Inl e"
  shows "GetBlockWithOpts cl ctx slot opts w = ((None, Some e), w)"
  using assms by (simp add: GetBlockWithOpts_def)

lemma GetBlockWithOpts_dispatched:
  fixes cl :: "('ctx, 's, 'e) Client"
  assumes "(getBlockObj opts :: 'e error + M) = Inr obj"
    and "rpcClient cl ctx ''getBlock'' [Uint64Param slot, MParam obj] (net w) = ((out, err), n')"
  shows "GetBlockWithOpts cl ctx slot opts w =
     ((if err \<noteq> None then (None, err)
       else if out = None then (None, Some ErrNotConfirmed)
       else (out, err)),
      \<lparr>calls = calls w @ [(''getBlock'', [Uint64Param slot, MParam obj])], net = n'\<rparr>)"
  using assms by (auto simp: GetBlockWithOpts_def CallForInto_def Let_def)

lemma GetBlockWithOpts_calls_accepted:
  fixes cl :: "('ctx, 's, 'e) Client"
  assumes "encodingAccepted opts"
  shows "calls (snd (GetBlockWithOpts cl ctx slot opts w)) =
     calls w @ [(''getBlock'', [Uint64Param slot, MParam (optionsObject opts)])]"
proof -
  have "(getBlockObj opts :: 'e error + M) = Inr (optionsObject opts)"
    by (rule getBlockObj_accepted [OF assms])
  then show ?thesis
    by (auto simp: GetBlockWithOpts_def CallForInto_def Let_def split: prod.splits)
qed

lemma GetBlockWithOpts_calls_cases:
  "calls (snd (GetBlockWithOpts cl ctx slot opts w)) =
     (if encodingAccepted opts
      then calls w @ [(''getBlock'', [Uint64Param slot, MParam (optionsObject opts)])]
      else calls w)"
proof (cases "encodingAccepted opts")
  case True
  then show ?thesis by (simp add: GetBlockWithOpts_calls_accepted)
next
  case False
  then obtain opt where o: "opts = Some opt" and "Encoding opt \<noteq> ''''"
    and "Encoding opt \<notin> {''json'', ''jsonParsed'', ''base58'', ''base64''}"
    by (auto simp: encodingAccepted_def split: option.splits)
  then have "GetBlockWithOpts cl ctx slot opts w =
      ((None, Some (Errorf (''provided encoding is not supported: '' @ Encoding opt))), w)"
    by (simp add: GetBlockWithOpts_rejected getBlockObj_rejected)
  with False show ?thesis by simp
qed

lemma GetBlockWithOpts_emitted:
  assumes "calls (snd (GetBlockWithOpts cl ctx slot opts w)) =
       calls w @ [(''getBlock'', [Uint64Param slot, MParam obj])]"
  shows "encodingAccepted opts \<and> obj = optionsObject opts"
  using assms by (simp add: GetBlockWithOpts_calls_cases split: if_splits)

subsection \<open>The claims\<close>

text \<open>
  C1. When the options carry a non-empty encoding that is none of json, jsonParsed,
  base58 and base64, \<open>GetBlockWithOpts\<close> returns a nil result with the error
  "provided encoding is not supported: ..." and leaves the world as it found it,
  whatever the transport is: the trace of transport calls does not grow.
\<close>

theorem GetBlockWithOpts_unsupported_encoding:
  assumes "Encoding opt \<noteq> ''''"
    and "Encoding opt \<notin> {''json'', ''jsonParsed'', ''base58'', ''base64''}"
  shows "GetBlockWithOpts cl ctx slot (Some opt) w =
       ((None, Some (Errorf (''provided encoding is not supported: '' @ Encoding opt))), w)
     \<and> calls (snd (GetBlockWithOpts cl ctx slot (Some opt) w)) = calls w"
proof -
  have "GetBlockWithOpts cl ctx slot (Some opt) w =
       ((None, Some (Errorf (''provided encoding is not supported: '' @ Encoding opt))), w)"
    using assms by (simp add: GetBlockWithOpts_rejected getBlockObj_rejected)
  then show ?thesis by simp
qed

theorem GetBlockWithOpts_unsupported_encoding_witness:
  "GetBlockWithOpts \<lparr>rpcClient = fixedReply (Some sampleBlock, None :: unit error option)\<rparr> () 10
       (Some \<lparr>Encoding = ''xml'', TransactionDetails = '''', Rewards = None, Commitment = ''''\<rparr>)
       emptyWorld =
     ((None, Some (Errorf ''provided encoding is not supported: xml'')), emptyWorld)
   \<and> calls (snd (GetBlockWithOpts \<lparr>rpcClient = fixedReply (Some sampleBlock, None :: unit error option)\<rparr> () 10
       (Some \<lparr>Encoding = ''xml'', TransactionDetails = '''', Rewards = None, Commitment = ''''\<rparr>)
       emptyWorld)) = []"
  using GetBlockWithOpts_unsupported_encoding
    [of "\<lparr>Encoding = ''xml'', TransactionDetails = '''', Rewards = None, Commitment = ''''\<rparr>"
        "\<lparr>rpcClient = fixedReply (Some sampleBlock, None :: unit error option)\<rparr>" "()" 10 emptyWorld]
  by (simp add: emptyWorld_def)

text \<open>
  C2. When the request built from the options is sent and the transport answers it
  with no error and a nil result, \<open>GetBlockWithOpts\<close> returns a nil result with
  the error \<open>ErrNotConfirmed\<close>. And on no input at all does it return a nil result
  together with a nil error.
\<close>

theorem GetBlockWithOpts_not_confirmed:
  fixes cl :: "('ctx, 's, 'e) Client"
  shows "((getBlockObj opts :: 'e error + M) = Inr obj
         \<and> rpcClient cl ctx ''getBlock'' [Uint64Param slot, MParam obj] (net w) = ((None, None), n')
         \<longrightarrow> fst (GetBlockWithOpts cl ctx slot opts w) = (None, Some ErrNotConfirmed))
     \<and> fst (GetBlockWithOpts cl ctx slot opts w) \<noteq> (None, None)"
proof (intro conjI impI)
  assume "(getBlockObj opts :: 'e error + M) = Inr obj
    \<and> rpcClient cl ctx ''getBlock'' [Uint64Param slot, MParam obj] (net w) = ((None, None), n')"
  then show "fst (GetBlockWithOpts cl ctx slot opts w) = (None, Some ErrNotConfirmed)"
    by (simp add: GetBlockWithOpts_dispatched)
next
  show "fst (GetBlockWithOpts cl ctx slot opts w) \<noteq> (None, None)"
    by (auto simp: GetBlockWithOpts_def CallForInto_def Let_def
             split: sum.splits prod.splits if_splits)
qed

theorem GetBlockWithOpts_not_confirmed_witness:
  "fst (GetBlockWithOpts \<lparr>rpcClient = fixedReply (None, None :: unit error option)\<rparr> () 999999 None emptyWorld)
     = (None, Some ErrNotConfirmed)"
proof -
  have obj: "(getBlockObj None :: unit error + M) = Inr [''encoding'' \<mapsto> EncodingV EncodingJSON]"
    by (simp add: getBlockObj_def)
  have reply: "rpcClient \<lparr>rpcClient = fixedReply (None, None :: unit error option)\<rparr> () ''getBlock''
      [Uint64Param 999999, MParam [''encoding'' \<mapsto> EncodingV EncodingJSON]] (net emptyWorld)
      = ((None, None), ())"
    by (simp add: fixedReply_def)
  show ?thesis
    using GetBlockWithOpts_not_confirmed
      [of None "[''encoding'' \<mapsto> EncodingV EncodingJSON]"
          "\<lparr>rpcClient = fixedReply (None, None :: unit error option)\<rparr>" "()" 999999 emptyWorld "()"]
      obj reply
    by simp
qed

text \<open>
  C3, as stated, fails: a bundle whose encoding is "base32" yields no parameter list
  at all, the method returns the encoding error and the transport is never called.
\<close>

theorem GetBlockWithOpts_params_counterexample:
  "(getBlockObj (Some \<lparr>Encoding = ''base32'', TransactionDetails = ''full'', Rewards = Some True,
        Commitment = ''finalized''\<rparr>) :: unit error + M)
     = Inl (Errorf ''provided encoding is not supported: base32'')
   \<and> calls (snd (GetBlockWithOpts
        \<lparr>rpcClient = fixedReply (Some sampleBlock, None :: unit error option)\<rparr> () 5
        (Some \<lparr>Encoding = ''base32'', TransactionDetails = ''full'', Rewards = Some True,
           Commitment = ''finalized''\<rparr>) emptyWorld)) = []"
  by (simp add: GetBlockWithOpts_def getBlockObj_def emptyWorld_def EncodingJSON_def
      EncodingJSONParsed_def EncodingBase58_def EncodingBase64_def)

text \<open>
  C3, amended. For every slot and every options bundle that is nil or whose
  encoding is empty or one of the four valid values, exactly one call of "getBlock"
  is made, with the parameter list [slot, obj]. The object always has the encoding
  key: it holds the default "json" when the bundle is nil or its encoding is
  empty, and the supplied encoding in its place otherwise. The object has each of
  the keys transactionDetails, rewards and commitment exactly when the bundle is non-nil and the field is not the empty string (not the nil
  pointer, for rewards); it has no other key; no value in it is a nil pointer,
  which would be sent as null; and for a nil bundle or a bundle of zero values it
  is exactly the object with the one entry encoding = "json".
\<close>

theorem GetBlockWithOpts_params:
  assumes "\<forall>opt. opts = Some opt \<longrightarrow>
     Encoding opt = '''' \<or> Encoding opt \<in> {''json'', ''jsonParsed'', ''base58'', ''base64''}"
  shows "\<exists>obj.
     calls (snd (GetBlockWithOpts cl ctx slot opts w)) =
       calls w @ [(''getBlock'', [Uint64Param slot, MParam obj])]
     \<and> ''encoding'' \<in> dom obj
     \<and> (opts = None \<or> (\<exists>opt. opts = Some opt \<and> Encoding opt = '''')
          \<longrightarrow> obj ''encoding'' = Some (EncodingV ''json''))
     \<and> (\<forall>opt. opts = Some opt \<and> Encoding opt \<noteq> ''''
          \<longrightarrow> obj ''encoding'' = Some (EncodingV (Encoding opt)))
     \<and> (''transactionDetails'' \<in> dom obj \<longleftrightarrow> (\<exists>opt. opts = Some opt \<and> TransactionDetails opt \<noteq> ''''))
     \<and> (''rewards'' \<in> dom obj \<longleftrightarrow> (\<exists>opt. opts = Some opt \<and> Rewards opt \<noteq> None))
     \<and> (''commitment'' \<in> dom obj \<longleftrightarrow> (\<exists>opt. opts = Some opt \<and> Commitment opt \<noteq> ''''))
     \<and> dom obj \<subseteq> {''encoding'', ''transactionDetails'', ''rewards'', ''commitment''}
     \<and> BoolPtrV None \<notin> ran obj
     \<and> (opts = None \<or> opts = Some \<lparr>Encoding = '''', TransactionDetails = '''', Rewards = None,
                                   Commitment = ''''\<rparr>
          \<longrightarrow> obj = [''encoding'' \<mapsto> EncodingV ''json''])"
proof -
  from assms have acc: "encodingAccepted opts"
    by (simp add: encodingAccepted_def split: option.splits)
  let ?obj = "optionsObject opts"
  have 1: "calls (snd (GetBlockWithOpts cl ctx slot opts w)) =
       calls w @ [(''getBlock'', [Uint64Param slot, MParam ?obj])]"
    by (rule GetBlockWithOpts_calls_accepted [OF acc])
  have 2: "''encoding'' \<in> dom ?obj"
    by (simp add: optionsObject_def dom_def)
  have 9: "opts = None \<or> (\<exists>opt. opts = Some opt \<and> Encoding opt = '''')
          \<longrightarrow> ?obj ''encoding'' = Some (EncodingV ''json'')"
    by (auto simp: optionsObject_def)
  have 10: "\<forall>opt. opts = Some opt \<and> Encoding opt \<noteq> ''''
          \<longrightarrow> ?obj ''encoding'' = Some (EncodingV (Encoding opt))"
    by (auto simp: optionsObject_def)
  have 3: "''transactionDetails'' \<in> dom ?obj \<longleftrightarrow> (\<exists>opt. opts = Some opt \<and> TransactionDetails opt \<noteq> '''')"
    by (cases opts) (simp_all add: optionsObject_def dom_def)
  have 4: "''rewards'' \<in> dom ?obj \<longleftrightarrow> (\<exists>opt. opts = Some opt \<and> Rewards opt \<noteq> None)"
    by (cases opts) (simp_all add: optionsObject_def dom_def)
  have 5: "''commitment'' \<in> dom ?obj \<longleftrightarrow> (\<exists>opt. opts = Some opt \<and> Commitment opt \<noteq> '''')"
    by (cases opts) (simp_all add: optionsObject_def dom_def)
  have 6: "dom ?obj \<subseteq> {''encoding'', ''transactionDetails'', ''rewards'', ''commitment''}"
    by (cases opts) (auto simp: optionsObject_def dom_def split: if_splits)
  have 7: "BoolPtrV None \<notin> ran ?obj"
    by (cases opts) (auto simp: optionsObject_def ran_def split: if_splits)
  have 8: "opts = None \<or> opts = Some \<lparr>Encoding = '''', TransactionDetails = '''', Rewards = None,
                                   Commitment = ''''\<rparr>
          \<longrightarrow> ?obj = [''encoding'' \<mapsto> EncodingV ''json'']"
    by (auto simp: optionsObject_def fun_eq_iff)
  from 1 2 9 10 3 4 5 6 7 8 show ?thesis by blast
qed

theorem GetBlockWithOpts_params_witness:
  "calls (snd (GetBlockWithOpts \<lparr>rpcClient = fixedReply (Some sampleBlock, None :: unit error option)\<rparr>
       () 5 None emptyWorld))
     = [(''getBlock'', [Uint64Param 5, MParam [''encoding'' \<mapsto> EncodingV ''json'']])]
   \<and> (\<exists>obj. calls (snd (GetBlockWithOpts
          \<lparr>rpcClient = fixedReply (Some sampleBlock, None :: unit error option)\<rparr> () 5
          (Some \<lparr>Encoding = ''base64'', TransactionDetails = ''signatures'', Rewards = Some False,
             Commitment = ''confirmed''\<rparr>) emptyWorld))
        = [(''getBlock'', [Uint64Param 5, MParam obj])]
      \<and> dom obj = {''encoding'', ''transactionDetails'', ''rewards'', ''commitment''}
      \<and> obj ''encoding'' = Some (EncodingV ''base64''))
   \<and> (\<exists>obj. calls (snd (GetBlockWithOpts
          \<lparr>rpcClient = fixedReply (Some sampleBlock, None :: unit error option)\<rparr> () 5
          (Some \<lparr>Encoding = '''', TransactionDetails = '''', Rewards = None,
             Commitment = ''confirmed''\<rparr>) emptyWorld))
        = [(''getBlock'', [Uint64Param 5, MParam obj])]
      \<and> ''commitment'' \<in> dom obj
      \<and> obj ''encoding'' = Some (EncodingV ''json''))"
proof (intro conjI)
  show "calls (snd (GetBlockWithOpts \<lparr>rpcClient = fixedReply (Some sampleBlock, None :: unit error option)\<rparr>
       () 5 None emptyWorld))
     = [(''getBlock'', [Uint64Param 5, MParam [''encoding'' \<mapsto> EncodingV ''json'']])]"
    using GetBlockWithOpts_params
      [of None "\<lparr>rpcClient = fixedReply (Some sampleBlock, None :: unit error option)\<rparr>" "()" 5 emptyWorld]
    by (auto simp: emptyWorld_def)
next
  show "\<exists>obj. calls (snd (GetBlockWithOpts
          \<lparr>rpcClient = fixedReply (Some sampleBlock, None :: unit error option)\<rparr> () 5
          (Some \<lparr>Encoding = ''base64'', TransactionDetails = ''signatures'', Rewards = Some False,
             Commitment = ''confirmed''\<rparr>) emptyWorld))
        = [(''getBlock'', [Uint64Param 5, MParam obj])]
      \<and> dom obj = {''encoding'', ''transactionDetails'', ''rewards'', ''commitment''}
      \<and> obj ''encoding'' = Some (EncodingV ''base64'')"
    using GetBlockWithOpts_params
      [of "Some \<lparr>Encoding = ''base64'', TransactionDetails = ''signatures'', Rewards = Some False,
             Commitment = ''confirmed''\<rparr>"
          "\<lparr>rpcClient = fixedReply (Some sampleBlock, None :: unit error option)\<rparr>" "()" 5 emptyWorld]
    by (auto simp: emptyWorld_def)
next
  show "\<exists>obj. calls (snd (GetBlockWithOpts
          \<lparr>rpcClient = fixedReply (Some sampleBlock, None :: unit error option)\<rparr> () 5
          (Some \<lparr>Encoding = '''', TransactionDetails = '''', Rewards = None,
             Commitment = ''confirmed''\<rparr>) emptyWorld))
        = [(''getBlock'', [Uint64Param 5, MParam obj])]
      \<and> ''commitment'' \<in> dom obj
      \<and> obj ''encoding'' = Some (EncodingV ''json'')"
    using GetBlockWithOpts_params
      [of "Some \<lparr>Encoding = '''', TransactionDetails = '''', Rewards = None,
             Commitment = ''confirmed''\<rparr>"
          "\<lparr>rpcClient = fixedReply (Some sampleBlock, None :: unit error option)\<rparr>" "()" 5 emptyWorld]
    by (auto simp: emptyWorld_def)
qed

text \<open>
  C4. When the bundle's encoding is one of json, jsonParsed, base58 and base64, the
  call is made and the object it carries holds that very value under the encoding
  key.
\<close>

theorem GetBlockWithOpts_valid_encoding:
  assumes "Encoding opt \<in> {''json'', ''jsonParsed'', ''base58'', ''base64''}"
  shows "\<exists>obj.
     calls (snd (GetBlockWithOpts cl ctx slot (Some opt) w)) =
       calls w @ [(''getBlock'', [Uint64Param slot, MParam obj])]
     \<and> obj ''encoding'' = Some (EncodingV (Encoding opt))"
proof -
  from assms have acc: "encodingAccepted (Some opt)" and ne: "Encoding opt \<noteq> ''''"
    by (auto simp: encodingAccepted_def)
  have "calls (snd (GetBlockWithOpts cl ctx slot (Some opt) w)) =
       calls w @ [(''getBlock'', [Uint64Param slot, MParam (optionsObject (Some opt))])]"
    by (rule GetBlockWithOpts_calls_accepted [OF acc])
  moreover have "optionsObject (Some opt) ''encoding'' = Some (EncodingV (Encoding opt))"
    using ne by (simp add: optionsObject_def)
  ultimately show ?thesis by blast
qed

theorem GetBlockWithOpts_valid_encoding_witness:
  "\<exists>obj. calls (snd (GetBlockWithOpts
        \<lparr>rpcClient = fixedReply (Some sampleBlock, None :: unit error option)\<rparr> () 42
        (Some \<lparr>Encoding = ''base58'', TransactionDetails = '''', Rewards = None, Commitment = ''''\<rparr>)
        emptyWorld))
      = [(''getBlock'', [Uint64Param 42, MParam obj])]
    \<and> obj ''encoding'' = Some (EncodingV ''base58'')"
  using GetBlockWithOpts_valid_encoding
    [of "\<lparr>Encoding = ''base58'', TransactionDetails = '''', Rewards = None, Commitment = ''''\<rparr>"
        "\<lparr>rpcClient = fixedReply (Some sampleBlock, None :: unit error option)\<rparr>" "()" 42 emptyWorld]
  by (simp add: emptyWorld_def)

text \<open>
  C5, as stated, fails: the transport's error is handed back as it is, so a
  transport that reports \<open>ErrNotConfirmed\<close> itself gives the caller exactly what a
  transport with an empty result gives: the same result, the same error, the same
  world. The two conditions cannot be told apart there.
\<close>

theorem GetBlockWithOpts_conditions_counterexample:
  "GetBlockWithOpts \<lparr>rpcClient = fixedReply (None, Some (ErrNotConfirmed :: unit error))\<rparr>
       () 999999 None emptyWorld
     = GetBlockWithOpts \<lparr>rpcClient = fixedReply (None, None :: unit error option)\<rparr>
       () 999999 None emptyWorld"
  by (simp add: GetBlockWithOpts_def CallForInto_def getBlockObj_def fixedReply_def emptyWorld_def)

text \<open>
  C5, amended. Take a run rejected for its encoding, a run whose transport reports
  the error \<open>e\<close>, and a run whose transport succeeds with a nil result. The
  encoding error and \<open>ErrNotConfirmed\<close> always differ; and when \<open>e\<close> is neither
  \<open>ErrNotConfirmed\<close> nor the encoding error of the first run, the three returned
  pairs differ from one another. Errors made by \<^verbatim>\<open>fmt.Errorf\<close> are compared by
  their message, the only thing a caller can tell them apart by.
\<close>

theorem GetBlockWithOpts_conditions_distinct:
  fixes cl1 cl2 cl3 :: "('ctx, 's, 'e) Client"
  assumes "Encoding opt1 \<noteq> ''''"
    and "Encoding opt1 \<notin> {''json'', ''jsonParsed'', ''base58'', ''base64''}"
    and "(getBlockObj opts2 :: 'e error + M) = Inr obj2"
    and "rpcClient cl2 ctx2 ''getBlock'' [Uint64Param slot2, MParam obj2] (net w2) = ((out2, Some e), n2)"
    and "(getBlockObj opts3 :: 'e error + M) = Inr obj3"
    and "rpcClient cl3 ctx3 ''getBlock'' [Uint64Param slot3, MParam obj3] (net w3) = ((None, None), n3)"
    and "e \<noteq> ErrNotConfirmed"
    and "e \<noteq> Errorf (''provided encoding is not supported: '' @ Encoding opt1)"
  shows "fst (GetBlockWithOpts cl1 ctx1 slot1 (Some opt1) w1) \<noteq> fst (GetBlockWithOpts cl2 ctx2 slot2 opts2 w2)
     \<and> fst (GetBlockWithOpts cl1 ctx1 slot1 (Some opt1) w1) \<noteq> fst (GetBlockWithOpts cl3 ctx3 slot3 opts3 w3)
     \<and> fst (GetBlockWithOpts cl2 ctx2 slot2 opts2 w2) \<noteq> fst (GetBlockWithOpts cl3 ctx3 slot3 opts3 w3)"
proof -
  have 1: "fst (GetBlockWithOpts cl1 ctx1 slot1 (Some opt1) w1) =
      (None, Some (Errorf (''provided encoding is not supported: '' @ Encoding opt1)))"
    using assms(1,2) by (simp add: GetBlockWithOpts_rejected getBlockObj_rejected)
  have 2: "fst (GetBlockWithOpts cl2 ctx2 slot2 opts2 w2) = (None, Some e)"
    using GetBlockWithOpts_dispatched [OF assms(3,4)] by simp
  have 3: "fst (GetBlockWithOpts cl3 ctx3 slot3 opts3 w3) = (None, Some ErrNotConfirmed)"
    using GetBlockWithOpts_dispatched [OF assms(5,6)] by simp
  from assms(7,8) show ?thesis
    unfolding 1 2 3 by auto
qed

theorem GetBlockWithOpts_conditions_distinct_witness:
  "fst (GetBlockWithOpts \<lparr>rpcClient = fixedReply (None, None :: string error option)\<rparr> () 10
         (Some \<lparr>Encoding = ''xml'', TransactionDetails = '''', Rewards = None, Commitment = ''''\<rparr>)
         emptyWorld)
     \<noteq> fst (GetBlockWithOpts
         \<lparr>rpcClient = fixedReply (Some sampleBlock, Some (OtherError ''timeout''))\<rparr> () 10 None emptyWorld)
   \<and> fst (GetBlockWithOpts \<lparr>rpcClient = fixedReply (None, None :: string error option)\<rparr> () 10
         (Some \<lparr>Encoding = ''xml'', TransactionDetails = '''', Rewards = None, Commitment = ''''\<rparr>)
         emptyWorld)
     \<noteq> fst (GetBlockWithOpts \<lparr>rpcClient = fixedReply (None, None :: string error option)\<rparr>
         () 10 None emptyWorld)
   \<and> fst (GetBlockWithOpts
         \<lparr>rpcClient = fixedReply (Some sampleBlock, Some (OtherError ''timeout''))\<rparr> () 10 None emptyWorld)
     \<noteq> fst (GetBlockWithOpts \<lparr>rpcClient = fixedReply (None, None :: string error option)\<rparr>
         () 10 None emptyWorld)"
proof -
  have obj: "(getBlockObj None :: string error + M) = Inr [''encoding'' \<mapsto> EncodingV EncodingJSON]"
    by (simp add: getBlockObj_def)
  have failing: "rpcClient \<lparr>rpcClient = fixedReply (Some sampleBlock, Some (OtherError ''timeout''))\<rparr> ()
      ''getBlock'' [Uint64Param 10, MParam [''encoding'' \<mapsto> EncodingV EncodingJSON]] (net emptyWorld)
      = ((Some sampleBlock, Some (OtherError ''timeout'')), ())"
    by (simp add: fixedReply_def)
  have empty: "rpcClient \<lparr>rpcClient = fixedReply (None, None :: string error option)\<rparr> ()
      ''getBlock'' [Uint64Param 10, MParam [''encoding'' \<mapsto> EncodingV EncodingJSON]] (net emptyWorld)
      = ((None, None), ())"
    by (simp add: fixedReply_def)
  show ?thesis
    by (rule GetBlockWithOpts_conditions_distinct
          [where ?opt1.0 = "\<lparr>Encoding = ''xml'', TransactionDetails = '''', Rewards = None, Commitment = ''''\<rparr>",
           OF _ _ obj failing obj empty])
       simp_all
qed

text \<open>
  C6. When the request built from the options is sent and the transport reports
  the error \<open>e\<close>, whatever it wrote into the result, \<open>GetBlockWithOpts\<close> returns
  a nil result with that same \<open>e\<close>, and the trace has grown by this one call and
  no more: the call is not repeated.
\<close>

theorem GetBlockWithOpts_transport_error:
  fixes cl :: "('ctx, 's, 'e) Client"
  assumes "(getBlockObj opts :: 'e error + M) = Inr obj"
    and "rpcClient cl ctx ''getBlock'' [Uint64Param slot, MParam obj] (net w) = ((out, Some e), n')"
  shows "GetBlockWithOpts cl ctx slot opts w =
     ((None, Some e),
      \<lparr>calls = calls w @ [(''getBlock'', [Uint64Param slot, MParam obj])], net = n'\<rparr>)"
  using GetBlockWithOpts_dispatched [OF assms] by simp

theorem GetBlockWithOpts_transport_error_witness:
  "GetBlockWithOpts \<lparr>rpcClient = fixedReply (None, Some (OtherError ''connection refused''))\<rparr>
       () 7 None emptyWorld =
     ((None, Some (OtherError ''connection refused'')),
      \<lparr>calls = [(''getBlock'', [Uint64Param 7, MParam [''encoding'' \<mapsto> EncodingV EncodingJSON]])],
       net = ()\<rparr>)"
proof -
  have obj: "(getBlockObj None :: string error + M) = Inr [''encoding'' \<mapsto> EncodingV EncodingJSON]"
    by (simp add: getBlockObj_def)
  have reply: "rpcClient \<lparr>rpcClient = fixedReply (None, Some (OtherError ''connection refused''))\<rparr> ()
      ''getBlock'' [Uint64Param 7, MParam [''encoding'' \<mapsto> EncodingV EncodingJSON]] (net emptyWorld)
      = ((None, Some (OtherError ''connection refused'')), ())"
    by (simp add: fixedReply_def)
  show ?thesis
    using GetBlockWithOpts_transport_error [OF obj reply] by (simp add: emptyWorld_def)
qed

text \<open>
  C7. Whether the request is sent depends on the encoding alone: it is sent exactly
  when the encoding is empty or valid, whatever the commitment and the transaction
  details are. And the object sent carries every non-empty commitment and every
  non-empty transactionDetails value as it was given.
\<close>

theorem GetBlockWithOpts_only_encoding_validated:
  "((\<exists>obj. calls (snd (GetBlockWithOpts cl ctx slot (Some opt) w)) =
            calls w @ [(''getBlock'', [Uint64Param slot, MParam obj])])
      \<longleftrightarrow> Encoding opt = '''' \<or> Encoding opt \<in> {''json'', ''jsonParsed'', ''base58'', ''base64''})
   \<and> (\<forall>obj. calls (snd (GetBlockWithOpts cl ctx slot (Some opt) w)) =
            calls w @ [(''getBlock'', [Uint64Param slot, MParam obj])] \<longrightarrow>
        (TransactionDetails opt \<noteq> '''' \<longrightarrow>
           obj ''transactionDetails'' = Some (TransactionDetailsV (TransactionDetails opt)))
      \<and> (Commitment opt \<noteq> '''' \<longrightarrow>
           obj ''commitment'' = Some (CommitmentV (Commitment opt))))"
proof (intro conjI allI impI iffI)
  assume "\<exists>obj. calls (snd (GetBlockWithOpts cl ctx slot (Some opt) w)) =
            calls w @ [(''getBlock'', [Uint64Param slot, MParam obj])]"
  then have "encodingAccepted (Some opt)"
    by (auto dest: GetBlockWithOpts_emitted)
  then show "Encoding opt = '''' \<or> Encoding opt \<in> {''json'', ''jsonParsed'', ''base58'', ''base64''}"
    by (simp add: encodingAccepted_def)
next
  assume "Encoding opt = '''' \<or> Encoding opt \<in> {''json'', ''jsonParsed'', ''base58'', ''base64''}"
  then have "encodingAccepted (Some opt)"
    by (simp add: encodingAccepted_def)
  then show "\<exists>obj. calls (snd (GetBlockWithOpts cl ctx slot (Some opt) w)) =
            calls w @ [(''getBlock'', [Uint64Param slot, MParam obj])]"
    by (blast intro: GetBlockWithOpts_calls_accepted)
next
  fix obj
  assume "calls (snd (GetBlockWithOpts cl ctx slot (Some opt) w)) =
            calls w @ [(''getBlock'', [Uint64Param slot, MParam obj])]"
    and "TransactionDetails opt \<noteq> ''''"
  then show "obj ''transactionDetails'' = Some (TransactionDetailsV (TransactionDetails opt))"
    by (auto dest!: GetBlockWithOpts_emitted simp: optionsObject_def)
next
  fix obj
  assume "calls (snd (GetBlockWithOpts cl ctx slot (Some opt) w)) =
            calls w @ [(''getBlock'', [Uint64Param slot, MParam obj])]"
    and "Commitment opt \<noteq> ''''"
  then show "obj ''commitment'' = Some (CommitmentV (Commitment opt))"
    by (auto dest!: GetBlockWithOpts_emitted simp: optionsObject_def)
qed

theorem GetBlockWithOpts_only_encoding_validated_witness:
  "\<exists>obj. calls (snd (GetBlockWithOpts
        \<lparr>rpcClient = fixedReply (Some sampleBlock, None :: unit error option)\<rparr> () 8
        (Some \<lparr>Encoding = '''', TransactionDetails = ''everything'', Rewards = None,
           Commitment = ''processed''\<rparr>) emptyWorld))
      = [(''getBlock'', [Uint64Param 8, MParam obj])]
    \<and> obj ''transactionDetails'' = Some (TransactionDetailsV ''everything'')
    \<and> obj ''commitment'' = Some (CommitmentV ''processed'')"
  using GetBlockWithOpts_only_encoding_validated
    [of "\<lparr>rpcClient = fixedReply (Some sampleBlock, None :: unit error option)\<rparr>" "()" 8
        "\<lparr>Encoding = '''', TransactionDetails = ''everything'', Rewards = None,
           Commitment = ''processed''\<rparr>" emptyWorld]
  by (auto simp: emptyWorld_def)

text \<open>
  C8. In the object the call carries, a \<open>Rewards\<close> field that points to false
  gives the rewards key with a pointer to false, and a nil \<open>Rewards\<close> field gives
  no rewards key.
\<close>

theorem GetBlockWithOpts_rewards:
  assumes "calls (snd (GetBlockWithOpts cl ctx slot (Some opt) w)) =
       calls w @ [(''getBlock'', [Uint64Param slot, MParam obj])]"
  shows "(Rewards opt = Some False \<longrightarrow> obj ''rewards'' = Some (BoolPtrV (Some False)))
     \<and> (Rewards opt = None \<longrightarrow> ''rewards'' \<notin> dom obj)"
proof -
  from assms have "obj = optionsObject (Some opt)"
    by (simp add: GetBlockWithOpts_emitted)
  then show ?thesis
    by (simp add: optionsObject_def dom_def)
qed

theorem GetBlockWithOpts_rewards_witness:
  "(\<exists>obj. calls (snd (GetBlockWithOpts
        \<lparr>rpcClient = fixedReply (Some sampleBlock, None :: unit error option)\<rparr> () 11
        (Some \<lparr>Encoding = '''', TransactionDetails = '''', Rewards = Some False, Commitment = ''''\<rparr>)
        emptyWorld))
      = [(''getBlock'', [Uint64Param 11, MParam obj])]
    \<and> obj ''rewards'' = Some (BoolPtrV (Some False)))
   \<and> (\<exists>obj. calls (snd (GetBlockWithOpts
        \<lparr>rpcClient = fixedReply (Some sampleBlock, None :: unit error option)\<rparr> () 11
        (Some \<lparr>Encoding = '''', TransactionDetails = '''', Rewards = None, Commitment = ''''\<rparr>)
        emptyWorld))
      = [(''getBlock'', [Uint64Param 11, MParam obj])]
    \<and> ''rewards'' \<notin> dom obj)"
proof -
  let ?cl = "\<lparr>rpcClient = fixedReply (Some sampleBlock, None :: unit error option)\<rparr>"
  let ?f = "\<lparr>Encoding = '''', TransactionDetails = '''', Rewards = Some False, Commitment = ''''\<rparr>"
  let ?n = "\<lparr>Encoding = '''', TransactionDetails = '''', Rewards = None, Commitment = ''''\<rparr>"
  have f: "calls (snd (GetBlockWithOpts ?cl () 11 (Some ?f) emptyWorld)) =
      calls emptyWorld @ [(''getBlock'', [Uint64Param 11, MParam (optionsObject (Some ?f))])]"
    by (rule GetBlockWithOpts_calls_accepted) (simp add: encodingAccepted_def)
  have n: "calls (snd (GetBlockWithOpts ?cl () 11 (Some ?n) emptyWorld)) =
      calls emptyWorld @ [(''getBlock'', [Uint64Param 11, MParam (optionsObject (Some ?n))])]"
    by (rule GetBlockWithOpts_calls_accepted) (simp add: encodingAccepted_def)
  from GetBlockWithOpts_rewards [OF f] GetBlockWithOpts_rewards [OF n] f n
  show ?thesis
    by (auto simp: emptyWorld_def)
qed

text \<open>
  C9. \<open>GetBlock\<close> returns what \<open>GetBlockWithOpts\<close> returns on a nil options
  bundle, result, error and world alike, for every client, context, slot and world.
\<close>

theorem GetBlock_eq_GetBlockWithOpts_nil:
  "GetBlock cl ctx slot w = GetBlockWithOpts cl ctx slot None w"
  by (simp add: GetBlock_def)

text \<open>
  C10. When \<open>GetBlockWithOpts\<close> returns a non-nil error, the result pointer it
  returns is nil, also when the transport had decoded something into it.
\<close>

theorem GetBlockWithOpts_error_nil_result:
  "snd (fst (GetBlockWithOpts cl ctx slot opts w)) \<noteq> None
     \<Longrightarrow> fst (fst (GetBlockWithOpts cl ctx slot opts w)) = None"
  by (auto simp: GetBlockWithOpts_def CallForInto_def Let_def split: sum.splits prod.splits if_splits)

theorem GetBlockWithOpts_error_nil_result_witness:
  "snd (fst (GetBlockWithOpts
       \<lparr>rpcClient = fixedReply (Some sampleBlock, Some (OtherError (503 :: nat)))\<rparr> () 5 None emptyWorld))
     = Some (OtherError 503)
   \<and> fst (fst (GetBlockWithOpts
       \<lparr>rpcClient = fixedReply (Some sampleBlock, Some (OtherError (503 :: nat)))\<rparr> () 5 None emptyWorld))
     = None"
  using GetBlockWithOpts_error_nil_result
    [of "\<lparr>rpcClient = fixedReply (Some sampleBlock, Some (OtherError (503 :: nat)))\<rparr>" "()" 5 None emptyWorld]
  by (simp add: GetBlockWithOpts_def CallForInto_def getBlockObj_def fixedReply_def emptyWorld_def)

end
